theory Spec2Isabelle
  imports Main
begin

section \<open>The meetings page of the dashboard (src/app/dashboard/meetings/page.tsx)\<close>

subsection \<open>Values that may be absent, and errors\<close>

text \<open>
  A property of a vendor payload is a value, \<^verbatim>\<open>null\<close>, or missing (reading it gives
  \<^verbatim>\<open>undefined\<close>). The operators \<^verbatim>\<open>??\<close> and \<^verbatim>\<open>?.\<close> treat \<^verbatim>\<open>null\<close> and \<^verbatim>\<open>undefined\<close>
  alike, but a function that ends its chain with \<^verbatim>\<open>?? null\<close> returns \<^verbatim>\<open>null\<close>, so the
  two are kept apart. Timestamps are Unix seconds, modelled as \<open>int\<close>; the only falsy
  number is then 0.
\<close>

datatype 'a nullable = Undefined | Null | Val 'a

fun nullish :: "'a nullable \<Rightarrow> bool" where
  "nullish Undefined = True"
| "nullish Null = True"
| "nullish (Val v) = False"

text \<open>
  \<open>TypeError\<close>: a property read on \<^verbatim>\<open>null\<close> or \<^verbatim>\<open>undefined\<close>.
  \<open>RangeError\<close>: the date library asked to format an invalid date.
  \<open>Error msg\<close>: \<^verbatim>\<open>throw new Error(msg)\<close> in the page's own code.
  \<open>Rejected reason\<close>: an awaited call of a collaborator (authentication library,
  database client, calendar client) rejected; the \<^verbatim>\<open>await\<close> rethrows the reason.
\<close>

datatype error = TypeError | RangeError | Error string | Rejected string

type_synonym 'a result = "error + 'a"

text \<open>
  \<^verbatim>\<open>await p\<close>: the promise of a collaborator settles with a reason for its rejection
  (\<open>Inl\<close>) or with its answer (\<open>Inr\<close>).
\<close>

definition await :: "string + 'a \<Rightarrow> 'a result" where
  "await p = (case p of Inl reason \<Rightarrow> Inl (Rejected reason) | Inr v \<Rightarrow> Inr v)"

definition bind_result :: "'a result \<Rightarrow> ('a \<Rightarrow> 'b result) \<Rightarrow> 'b result" where
  "bind_result m f = (case m of Inl e \<Rightarrow> Inl e | Inr v \<Rightarrow> f v)"

text \<open>\<^verbatim>\<open>x.f\<close>: throws on a nullish receiver.\<close>

definition member :: "'a nullable \<Rightarrow> ('a \<Rightarrow> 'b nullable) \<Rightarrow> 'b nullable result" where
  "member x f = (case x of Val a \<Rightarrow> Inr (f a) | _ \<Rightarrow> Inl TypeError)"

text \<open>\<^verbatim>\<open>x?.rest\<close>: a nullish receiver ends the whole chain with \<^verbatim>\<open>undefined\<close>.\<close>

definition opt_chain :: "'a nullable \<Rightarrow> ('a \<Rightarrow> 'b nullable result) \<Rightarrow> 'b nullable result" where
  "opt_chain x rest = (case x of Val a \<Rightarrow> rest a | _ \<Rightarrow> Inr Undefined)"

text \<open>\<^verbatim>\<open>xs[i]\<close> on an array: \<^verbatim>\<open>undefined\<close> out of range, never an error.\<close>

definition index_js :: "'a list \<Rightarrow> nat \<Rightarrow> 'a nullable" where
  "index_js xs i = (if i < length xs then Val (xs ! i) else Undefined)"

text \<open>\<^verbatim>\<open>a ?? b\<close>: \<open>b\<close> is evaluated only when \<open>a\<close> is nullish.\<close>

definition coalesce :: "'a nullable result \<Rightarrow> 'a nullable result \<Rightarrow> 'a nullable result" where
  "coalesce a b = (case a of Inl e \<Rightarrow> Inl e | Inr v \<Rightarrow> if nullish v then b else Inr v)"

text \<open>Truthiness, as \<^verbatim>\<open>!x\<close>, \<^verbatim>\<open>x && y\<close> and \<^verbatim>\<open>x || y\<close> test it.\<close>

fun truthy_num :: "int nullable \<Rightarrow> bool" where
  "truthy_num (Val n) = (n \<noteq> 0)"
| "truthy_num v = False"

fun truthy_str :: "string nullable \<Rightarrow> bool" where
  "truthy_str (Val s) = (s \<noteq> [])"
| "truthy_str v = False"

subsection \<open>The payload types\<close>

text \<open>
  The element type of \<^verbatim>\<open>times\<close> is anonymous in the source; it is named \<open>TimeRange\<close>
  here. \<open>When\<close> and \<open>Conferencing\<close> admit further properties (their index signature);
  no function of the page reads them, and the functions below are stated on the
  record schemes, so they apply to payloads with further properties as well.
  The fields \<^verbatim>\<open>end\<close>, \<^verbatim>\<open>times\<close>, \<^verbatim>\<open>id\<close> and \<^verbatim>\<open>when\<close> carry a prime.
\<close>

record TimeRange =
  start_time :: int
  end_time :: int

record When =
  start_time :: "int nullable"
  end_time :: "int nullable"
  start :: "int nullable"
  end' :: "int nullable"
  time :: "int nullable"
  times' :: "TimeRange list nullable"
  date :: "string nullable"
  dates :: "string list nullable"

record Details =
  url :: "string nullable"

record Conferencing =
  details :: "Details nullable"
  url :: "string nullable"

subsection \<open>Extraction of start, end and meeting URL\<close>

definition getStartTime :: "'z When_scheme \<Rightarrow> int nullable result" where
  "getStartTime w =
     coalesce (member (Val w) start_time)
    (coalesce (member (Val w) start)
    (coalesce (member (Val w) time)
    (coalesce (bind_result (member (Val w) times') (\<lambda>ts.
                 opt_chain ts (\<lambda>xs.
                 opt_chain (index_js xs 0) (\<lambda>r.
                 Inr (Val (TimeRange.start_time r))))))
              (Inr Null))))"

definition getEndTime :: "'z When_scheme \<Rightarrow> int nullable result" where
  "getEndTime w =
     coalesce (member (Val w) end_time)
    (coalesce (member (Val w) end')
    (coalesce (bind_result (member (Val w) times') (\<lambda>ts.
                 opt_chain ts (\<lambda>xs.
                 opt_chain (index_js xs 0) (\<lambda>r.
                 Inr (Val (TimeRange.end_time r))))))
              (Inr Null)))"

definition getMeetingUrl :: "'z Conferencing_scheme nullable \<Rightarrow> string nullable result" where
  "getMeetingUrl conferencing =
     coalesce (opt_chain conferencing (\<lambda>c.
                 bind_result (member (Val c) details) (\<lambda>d.
                 opt_chain d (\<lambda>d'. member (Val d') Details.url))))
    (coalesce (opt_chain conferencing (\<lambda>c. member (Val c) url))
              (Inr Null))"

subsection \<open>Events, as the vendor sends them and as the page uses them\<close>

text \<open>
  One record type serves both: the vendor's event has an optional title and an optional
  list of participants with optional names (and further properties, kept in the record
  scheme); \<^verbatim>\<open>NylasEvent\<close> has a string title and a list of participants that have
  exactly a name. \<open>Session\<close> is what the authentication library answers.
\<close>

record User =
  id' :: "string nullable"

record Session =
  user :: "User nullable"

record 'n Participant =
  name :: 'n

record ('t, 'p) Event =
  id' :: string
  when' :: When
  title :: 't
  participants :: 'p
  conferencing :: "Conferencing nullable"

type_synonym ('y, 'z) RawEvent =
  "(string nullable, (string nullable, 'y) Participant_scheme list nullable, 'z) Event_scheme"

type_synonym 'z NylasEvent = "(string, string Participant list, 'z) Event_scheme"

text \<open>\<^verbatim>\<open>a ?? d\<close> where the default \<open>d\<close> is a value, so that the result is one.\<close>

definition coalesce_default :: "'a nullable \<Rightarrow> 'a \<Rightarrow> 'a" where
  "coalesce_default a d = (case a of Val v \<Rightarrow> v | _ \<Rightarrow> d)"

text \<open>\<^verbatim>\<open>xs?.map(f)\<close>.\<close>

definition opt_map :: "'a list nullable \<Rightarrow> ('a \<Rightarrow> 'b) \<Rightarrow> 'b list nullable" where
  "opt_map xs f = (case xs of Val ys \<Rightarrow> Val (map f ys) | _ \<Rightarrow> Undefined)"

text \<open>\<^verbatim>\<open>a || d\<close> on strings.\<close>

definition or_default :: "string nullable \<Rightarrow> string \<Rightarrow> string" where
  "or_default a d = (case a of Val s \<Rightarrow> if s \<noteq> [] then s else d | _ \<Rightarrow> d)"

text \<open>
  What a truthiness test leaves for the code that follows it: the value, when there is
  a truthy one.
\<close>

definition narrow_num :: "int nullable \<Rightarrow> int option" where
  "narrow_num v = (case v of Val n \<Rightarrow> if n \<noteq> 0 then Some n else None | _ \<Rightarrow> None)"

definition narrow_str :: "string nullable \<Rightarrow> string option" where
  "narrow_str v = (case v of Val s \<Rightarrow> if s \<noteq> [] then Some s else None | _ \<Rightarrow> None)"

subsection \<open>getData\<close>

text \<open>
  The database client and the calendar client are parameters: \<open>findUnique\<close> answers the
  query for a user id with the selected columns of the user, or \<^verbatim>\<open>null\<close>;
  \<open>events_list\<close> answers a grant identifier and a calendar id with the events of the
  response (its \<^verbatim>\<open>data\<close>). Either call may reject. The calls made to the calendar
  client are logged, oldest first. The caller passes
  \<^verbatim>\<open>session?.user?.id as string\<close>, which may be \<^verbatim>\<open>undefined\<close>, so \<open>userId\<close> is a
  nullable string. A truthiness test on a string fails on \<^verbatim>\<open>null\<close>, on
  \<^verbatim>\<open>undefined\<close> and on the empty string. The two arrow functions of the final
  \<^verbatim>\<open>map\<close> are named \<open>normalize_event\<close> and \<open>normalize_participant\<close>; the spread
  \<^verbatim>\<open>...event\<close> copies every property, and the two named ones are then overwritten.
\<close>

record UserData =
  grantId :: "string nullable"
  grantEmail :: "string nullable"

type_synonym call = "string \<times> string"

definition normalize_participant :: "(string nullable, 'y) Participant_scheme \<Rightarrow> string Participant" where
  "normalize_participant p = \<lparr>name = coalesce_default (name p) ''''\<rparr>"

definition normalize_event :: "('y, 'z) RawEvent \<Rightarrow> 'z NylasEvent" where
  "normalize_event event =
     \<lparr>id' = id' event,
      when' = when' event,
      title = coalesce_default (title event) '''',
      participants = coalesce_default (opt_map (participants event) normalize_participant) [],
      conferencing = conferencing event,
      \<dots> = Event.more event\<rparr>"

definition getData ::
  "(string nullable \<Rightarrow> string + UserData nullable) \<Rightarrow>
   (string \<Rightarrow> string \<Rightarrow> string + ('y, 'z) RawEvent list) \<Rightarrow>
   string nullable \<Rightarrow> call list \<Rightarrow> 'z NylasEvent list result \<times> call list" where
  "getData findUnique events_list userId calls =
     (case await (findUnique userId) of
        Inl e \<Rightarrow> (Inl e, calls)
      | Inr userData \<Rightarrow>
          (case userData of
             Val u \<Rightarrow>
               (case narrow_str (grantId u) of
                  None \<Rightarrow> (Inl (Error ''User grantId not found''), calls)
                | Some g \<Rightarrow>
                    (case narrow_str (grantEmail u) of
                       None \<Rightarrow> (Inl (Error ''User grantEmail not found''), calls)
                     | Some c \<Rightarrow>
                         (bind_result (await (events_list g c))
                            (\<lambda>data. Inr (map normalize_event data)),
                          calls @ [(g, c)])))
           | _ \<Rightarrow> (Inl (Error ''User not found''), calls)))"

subsection \<open>MeetingsPage\<close>

text \<open>
  What the page returns, without its styling: the empty state, or the card with one
  child per event, a form or \<^verbatim>\<open>null\<close>. \<open>render_item\<close> is the callback of
  \<^verbatim>\<open>data.map\<close>, \<open>render\<close> the expression the page returns.
\<close>

text \<open>
  The dates are formatted by a library: \<^verbatim>\<open>fromUnixTime(t)\<close> is the date of \<open>t\<close> seconds
  after the epoch, a valid date when \<open>t\<close> is at most 8640000000000 either way, and
  \<^verbatim>\<open>format\<close> throws a RangeError on an invalid date. The text the library writes
  for a valid date is not modelled: \<open>Formatted t pattern\<close> stands for it.
\<close>

datatype formatted = Formatted int string

definition format_fromUnixTime :: "int \<Rightarrow> string \<Rightarrow> formatted result" where
  "format_fromUnixTime t pattern =
     (if \<bar>t\<bar> \<le> 8640000000000 then Inr (Formatted t pattern) else Inl RangeError)"

text \<open>
  The form of one booking: its key, its action (the server action, by the name it is
  imported under), the value of the hidden input \<^verbatim>\<open>eventId\<close>, the three formatted
  texts, the address of the link to the meeting when the link is there, the heading,
  the name after "You and", and the text of the button.
\<close>

record Form =
  key :: string
  action :: string
  eventId :: string
  date_text :: formatted
  start_text :: formatted
  end_text :: formatted
  join_href :: "string option"
  heading :: string
  you_and :: string
  button :: string

datatype page =
  EmptyState string string string string
| Card string string "Form option list"

fun map_result :: "('a \<Rightarrow> 'b result) \<Rightarrow> 'a list \<Rightarrow> 'b list result" where
  "map_result f [] = Inr []"
| "map_result f (x # xs) =
     bind_result (f x) (\<lambda>y. bind_result (map_result f xs) (\<lambda>ys. Inr (y # ys)))"

definition render_item :: "'z NylasEvent \<Rightarrow> Form option result" where
  "render_item item =
     bind_result (getStartTime (when' item)) (\<lambda>startTime.
     bind_result (getEndTime (when' item)) (\<lambda>endTime.
     bind_result (getMeetingUrl (conferencing item)) (\<lambda>meetingUrl.
       (case narrow_num startTime of
          None \<Rightarrow> Inr None
        | Some s \<Rightarrow>
            (case narrow_num endTime of
               None \<Rightarrow> Inr None
             | Some e \<Rightarrow>
                 bind_result (format_fromUnixTime s ''EEE, dd MMM'') (\<lambda>date_shown.
                 bind_result (format_fromUnixTime s ''hh:mm a'') (\<lambda>start_shown.
                 bind_result (format_fromUnixTime e ''hh:mm a'') (\<lambda>end_shown.
                 bind_result
                   (opt_chain (index_js (participants item) 0) (\<lambda>p. Inr (Val (name p))))
                   (\<lambda>n. Inr (Some
                      \<lparr>key = id' item,
                       action = ''cancelMeetingAction'',
                       eventId = id' item,
                       date_text = date_shown,
                       start_text = start_shown,
                       end_text = end_shown,
                       join_href = narrow_str meetingUrl,
                       heading = title item,
                       you_and = or_default n ''participant'',
                       button = ''Cancel Event''\<rparr>))))))))))"

definition render :: "'z NylasEvent list \<Rightarrow> page result" where
  "render data =
     (if length data = 0
      then Inr (EmptyState ''No meetings found'' ''You don't have any meetings yet.''
                  ''Create a new event type'' ''/dashboard/new'')
      else bind_result (map_result render_item data) (\<lambda>children.
             Inr (Card ''Bookings''
                    ''See upcoming and past events booked through your event type links.''
                    children)))"

text \<open>\<^verbatim>\<open>session?.user?.id\<close>.\<close>

definition session_user_id :: "Session nullable \<Rightarrow> string nullable result" where
  "session_user_id session =
     opt_chain session (\<lambda>s. opt_chain (user s) (\<lambda>u. Inr (User.id' u)))"

definition MeetingsPage ::
  "(string + Session nullable) \<Rightarrow>
   (string nullable \<Rightarrow> string + UserData nullable) \<Rightarrow>
   (string \<Rightarrow> string \<Rightarrow> string + ('y, 'z) RawEvent list) \<Rightarrow>
   call list \<Rightarrow> page result \<times> call list" where
  "MeetingsPage auth findUnique events_list calls =
     (case await auth of
        Inl e \<Rightarrow> (Inl e, calls)
      | Inr session \<Rightarrow>
          (case session_user_id session of
             Inl e \<Rightarrow> (Inl e, calls)
           | Inr userId \<Rightarrow>
               (case getData findUnique events_list userId calls of
                  (Inl e, calls') \<Rightarrow> (Inl e, calls')
                | (Inr data, calls') \<Rightarrow> (render data, calls'))))"

subsection \<open>The notions of the specification\<close>

text \<open>
  A precedence order, as the specification words it: the first present (non-nullish)
  value of a list of candidates, \<^verbatim>\<open>null\<close> when there is none.
\<close>

fun first_present :: "'a nullable list \<Rightarrow> 'a nullable" where
  "first_present [] = Null"
| "first_present (v # vs) = (if nullish v then first_present vs else v)"

text \<open>A field of the first element of \<^verbatim>\<open>times\<close>, when there is a list and it has one.\<close>

definition first_of_times :: "'z When_scheme \<Rightarrow> (TimeRange \<Rightarrow> int) \<Rightarrow> int nullable" where
  "first_of_times w f = (case times' w of Val (r # rs) \<Rightarrow> Val (f r) | _ \<Rightarrow> Undefined)"

definition details_url :: "'z Conferencing_scheme \<Rightarrow> string nullable" where
  "details_url c = (case details c of Val d \<Rightarrow> Details.url d | _ \<Rightarrow> Undefined)"

text \<open>The payload with no field set.\<close>

definition empty_when :: When where
  "empty_when =
     \<lparr>start_time = Undefined, end_time = Undefined, start = Undefined, end' = Undefined,
      time = Undefined, times' = Undefined, date = Undefined, dates = Undefined\<rparr>"

text \<open>
  The shapes of the glossary that carry no time range: a single time and nothing else,
  and a date or a list of dates with no numeric time field.
\<close>

definition single_time :: "'z When_scheme \<Rightarrow> bool" where
  "single_time w =
     (\<not> nullish (time w) \<and> nullish (start_time w) \<and> nullish (end_time w) \<and>
      nullish (start w) \<and> nullish (end' w) \<and> nullish (times' w))"

definition date_only :: "'z When_scheme \<Rightarrow> bool" where
  "date_only w =
     ((\<not> nullish (date w) \<or> \<not> nullish (dates w)) \<and>
      nullish (start_time w) \<and> nullish (end_time w) \<and> nullish (start w) \<and>
      nullish (end' w) \<and> nullish (time w) \<and> nullish (times' w))"

text \<open>
  An entry is upcoming at the time \<open>now\<close> when its event has not ended by then, and
  past otherwise. The page has no such notion; this one follows the specification.
\<close>

fun shown_time :: "formatted \<Rightarrow> int" where
  "shown_time (Formatted t pattern) = t"

definition upcoming :: "int \<Rightarrow> Form \<Rightarrow> bool" where
  "upcoming now f = (now \<le> shown_time (end_text f))"

text \<open>
  Two collaborators to run getData against: a database that answers every query with a
  user who has a grant identifier and a calendar, and a calendar client that rejects
  every call.
\<close>

definition complete_user_db :: "string nullable \<Rightarrow> string + UserData nullable" where
  "complete_user_db userId =
     Inr (Val \<lparr>grantId = Val ''grant-1'', grantEmail = Val ''me@example.org''\<rparr>)"

definition unavailable_vendor :: "string \<Rightarrow> string \<Rightarrow> string + (unit, unit) RawEvent list" where
  "unavailable_vendor identifier calendarId = Inl ''503 Service Unavailable''"

subsection \<open>Facts about the operators\<close>

lemma member_Val: "member (Val a) f = Inr (f a)"
  by (simp add: member_def)

lemma coalesce_Inr: "coalesce (Inr v) b = (if nullish v then b else Inr v)"
  by (simp add: coalesce_def)

lemma bind_result_Inr: "bind_result (Inr v) f = f v"
  by (simp add: bind_result_def)

lemma opt_chain_Val: "opt_chain (Val a) rest = rest a"
  by (simp add: opt_chain_def)

lemma chain_first_of_times:
  "opt_chain (times' w) (\<lambda>xs. opt_chain (index_js xs 0) (\<lambda>r. Inr (Val (f r))))
   = Inr (first_of_times w f)"
  by (simp add: opt_chain_def index_js_def first_of_times_def
      split: nullable.splits list.splits)

lemma chain_details_url:
  "opt_chain (details c) (\<lambda>d'. Inr (Details.url d')) = Inr (details_url c)"
  by (simp add: opt_chain_def details_url_def split: nullable.splits)

lemma getStartTime_eq:
  "getStartTime w =
     Inr (first_present [start_time w, start w, time w, first_of_times w TimeRange.start_time])"
  by (simp add: getStartTime_def member_Val bind_result_Inr chain_first_of_times coalesce_Inr)

lemma getEndTime_eq:
  "getEndTime w =
     Inr (first_present [end_time w, end' w, first_of_times w TimeRange.end_time])"
  by (simp add: getEndTime_def member_Val bind_result_Inr chain_first_of_times coalesce_Inr)

lemma getMeetingUrl_Val:
  "getMeetingUrl (Val c) = Inr (first_present [details_url c, url c])"
  by (simp add: getMeetingUrl_def opt_chain_Val member_Val bind_result_Inr
      chain_details_url coalesce_Inr)

lemma getMeetingUrl_absent:
  "nullish c \<Longrightarrow> getMeetingUrl c = Inr Null"
  by (cases c) (simp_all add: getMeetingUrl_def opt_chain_def coalesce_def)

lemma first_present_defined: "first_present vs \<noteq> Undefined"
  by (induction vs) (auto elim: nullish.elims)

subsection \<open>Facts about rendering\<close>

lemma narrow_num_None: "(narrow_num v = None) = (\<not> truthy_num v)"
  by (cases v) (simp_all add: narrow_num_def)

lemma narrow_num_Some: "(narrow_num v = Some n) = (v = Val n \<and> n \<noteq> 0)"
  by (cases v) (auto simp add: narrow_num_def)

lemma getMeetingUrl_returns: "\<exists>u. getMeetingUrl c = Inr u"
  by (cases c) (simp_all add: getMeetingUrl_Val getMeetingUrl_absent)

lemma first_name_returns:
  "opt_chain (index_js ps 0) (\<lambda>p. Inr (Val (name p))) =
     Inr (case ps of [] \<Rightarrow> Undefined | p # qs \<Rightarrow> Val (name p))"
  by (cases ps) (simp_all add: opt_chain_def index_js_def)

lemma format_in_range:
  "\<bar>t\<bar> \<le> 8640000000000 \<Longrightarrow> format_fromUnixTime t pattern = Inr (Formatted t pattern)"
  by (simp add: format_fromUnixTime_def)

lemma format_out_of_range:
  "\<not> \<bar>t\<bar> \<le> 8640000000000 \<Longrightarrow> format_fromUnixTime t pattern = Inl RangeError"
  by (simp add: format_fromUnixTime_def)

text \<open>
  The form of an event whose start and end are the truthy numbers \<open>s\<close> and \<open>e\<close>, both
  within the range of dates.
\<close>

lemma render_item_Some:
  assumes "getStartTime (when' item) = Inr (Val s)" "s \<noteq> 0"
    and "getEndTime (when' item) = Inr (Val e)" "e \<noteq> 0"
    and "getMeetingUrl (conferencing item) = Inr u"
    and "\<bar>s\<bar> \<le> 8640000000000" "\<bar>e\<bar> \<le> 8640000000000"
  shows "render_item item = Inr (Some
           \<lparr>key = id' item, action = ''cancelMeetingAction'', eventId = id' item,
            date_text = Formatted s ''EEE, dd MMM'',
            start_text = Formatted s ''hh:mm a'',
            end_text = Formatted e ''hh:mm a'',
            join_href = narrow_str u, heading = title item,
            you_and = or_default
              (case participants item of [] \<Rightarrow> Undefined | p # qs \<Rightarrow> Val (name p))
              ''participant'',
            button = ''Cancel Event''\<rparr>)"
  using assms
  by (simp add: render_item_def bind_result_Inr first_name_returns narrow_num_def
      format_in_range)

lemma render_item_RangeError:
  assumes "getStartTime (when' item) = Inr (Val s)" "s \<noteq> 0"
    and "getEndTime (when' item) = Inr (Val e)" "e \<noteq> 0"
    and "\<not> \<bar>s\<bar> \<le> 8640000000000 \<or> \<not> \<bar>e\<bar> \<le> 8640000000000"
  shows "render_item item = Inl RangeError"
proof -
  obtain u where u: "getMeetingUrl (conferencing item) = Inr u"
    using getMeetingUrl_returns by blast
  show ?thesis
  proof (cases "\<bar>s\<bar> \<le> 8640000000000")
    case True
    with assms(5) have "\<not> \<bar>e\<bar> \<le> 8640000000000"
      by simp
    with True assms(1-4) u show ?thesis
      by (simp add: render_item_def bind_result_Inr narrow_num_def format_in_range
          format_out_of_range bind_result_def)
  next
    case False
    with assms(1-4) u show ?thesis
      by (simp add: render_item_def bind_result_Inr narrow_num_def format_out_of_range
          bind_result_def)
  qed
qed

lemma render_item_None:
  assumes "getStartTime (when' item) = Inr a" "getEndTime (when' item) = Inr b"
    and "\<not> truthy_num a \<or> \<not> truthy_num b"
  shows "render_item item = Inr None"
proof -
  obtain u where u: "getMeetingUrl (conferencing item) = Inr u"
    using getMeetingUrl_returns by blast
  from assms(3) have "narrow_num a = None \<or> narrow_num b = None"
    by (simp add: narrow_num_None)
  then show ?thesis
    using assms(1,2) u
    by (auto simp add: render_item_def bind_result_Inr split: option.splits)
qed

subsection \<open>Facts about getData\<close>

lemma narrow_str_None: "(narrow_str v = None) = (\<not> truthy_str v)"
  by (cases v) (simp_all add: narrow_str_def)

lemma narrow_str_Some: "(narrow_str v = Some t) = (v = Val t \<and> t \<noteq> [])"
  by (cases v) (auto simp add: narrow_str_def)

lemma truthy_str_Val: "truthy_str v \<Longrightarrow> \<exists>t. v = Val t \<and> t \<noteq> []"
  by (cases v) simp_all

lemma getData_db_rejects:
  "findUnique userId = Inl reason \<Longrightarrow>
   getData findUnique events_list userId calls = (Inl (Rejected reason), calls)"
  by (simp add: getData_def await_def)

lemma getData_no_user:
  "findUnique userId = Inr ud \<Longrightarrow> nullish ud \<Longrightarrow>
   getData findUnique events_list userId calls = (Inl (Error ''User not found''), calls)"
  by (cases ud) (simp_all add: getData_def await_def)

lemma getData_no_grantId:
  "findUnique userId = Inr (Val u) \<Longrightarrow> \<not> truthy_str (grantId u) \<Longrightarrow>
   getData findUnique events_list userId calls =
     (Inl (Error ''User grantId not found''), calls)"
  by (simp add: getData_def await_def narrow_str_None [symmetric])

lemma getData_no_grantEmail:
  "findUnique userId = Inr (Val u) \<Longrightarrow> truthy_str (grantId u) \<Longrightarrow>
   \<not> truthy_str (grantEmail u) \<Longrightarrow>
   getData findUnique events_list userId calls =
     (Inl (Error ''User grantEmail not found''), calls)"
  by (auto simp add: getData_def await_def narrow_str_None [symmetric] narrow_str_Some
      dest!: truthy_str_Val split: option.splits)

lemma getData_calls_vendor:
  "findUnique userId = Inr (Val u) \<Longrightarrow> grantId u = Val g \<Longrightarrow> g \<noteq> [] \<Longrightarrow>
   grantEmail u = Val c \<Longrightarrow> c \<noteq> [] \<Longrightarrow>
   getData findUnique events_list userId calls =
     (case events_list g c of
        Inl reason \<Rightarrow> Inl (Rejected reason)
      | Inr raw \<Rightarrow> Inr (map normalize_event raw),
      calls @ [(g, c)])"
  by (simp add: getData_def await_def narrow_str_def bind_result_def split: sum.splits)

text \<open>The five ways through getData.\<close>

lemma getData_cases:
  obtains (db_rejects) reason where "findUnique userId = Inl reason"
  | (no_user) ud where "findUnique userId = Inr ud" "nullish ud"
  | (no_grantId) u where "findUnique userId = Inr (Val u)" "\<not> truthy_str (grantId u)"
  | (no_grantEmail) u where "findUnique userId = Inr (Val u)" "truthy_str (grantId u)"
      "\<not> truthy_str (grantEmail u)"
  | (calls_vendor) u g c where "findUnique userId = Inr (Val u)"
      "grantId u = Val g" "g \<noteq> []" "grantEmail u = Val c" "c \<noteq> []"
proof (cases "findUnique userId")
  case (Inl reason)
  then show ?thesis by (rule db_rejects)
next
  case (Inr ud)
  show ?thesis
  proof (cases ud)
    case (Val u)
    show ?thesis
    proof (cases "truthy_str (grantId u)")
      case g: True
      show ?thesis
      proof (cases "truthy_str (grantEmail u)")
        case True
        with g Inr Val show ?thesis
          using truthy_str_Val [of "grantId u"] truthy_str_Val [of "grantEmail u"]
          by (auto intro: calls_vendor)
      next
        case False
        with g Inr Val show ?thesis by (auto intro: no_grantEmail)
      qed
    next
      case False
      with Inr Val show ?thesis by (auto intro: no_grantId)
    qed
  qed (use Inr in \<open>auto intro: no_user\<close>)
qed

lemma getData_Inr:
  assumes "getData findUnique events_list userId calls = (Inr data, calls')"
  shows "\<exists>u g c raw. findUnique userId = Inr (Val u) \<and> grantId u = Val g \<and> g \<noteq> [] \<and>
           grantEmail u = Val c \<and> c \<noteq> [] \<and> events_list g c = Inr raw \<and>
           data = map normalize_event raw \<and> calls' = calls @ [(g, c)]"
proof (cases rule: getData_cases [of findUnique userId])
  case (db_rejects reason)
  with assms show ?thesis by (simp add: getData_db_rejects)
next
  case (no_user ud)
  with assms show ?thesis by (simp add: getData_no_user)
next
  case (no_grantId u)
  with assms show ?thesis by (simp add: getData_no_grantId)
next
  case (no_grantEmail u)
  with assms show ?thesis by (simp add: getData_no_grantEmail)
next
  case (calls_vendor u g c)
  with assms show ?thesis
    by (cases "events_list g c") (auto simp add: getData_calls_vendor)
qed

lemma normalize_event_fields:
  "title (normalize_event ev) = (case title ev of Val t \<Rightarrow> t | _ \<Rightarrow> '''')"
  "participants (normalize_event ev) =
     (case participants ev of
        Val ps \<Rightarrow> map (\<lambda>p. \<lparr>name = (case name p of Val n \<Rightarrow> n | _ \<Rightarrow> '''')\<rparr>) ps
      | _ \<Rightarrow> [])"
  "id' (normalize_event ev) = id' ev"
  "when' (normalize_event ev) = when' ev"
  "conferencing (normalize_event ev) = conferencing ev"
  "Event.more (normalize_event ev) = Event.more ev"
  by (simp_all add: normalize_event_def normalize_participant_def coalesce_default_def
      opt_map_def split: nullable.splits)

subsection \<open>Facts about the page\<close>

text \<open>The three ways through the callback of the map.\<close>

lemma render_item_cases:
  obtains (skipped) a b where "getStartTime (when' item) = Inr a"
      "getEndTime (when' item) = Inr b" "\<not> truthy_num a \<or> \<not> truthy_num b"
  | (shown) s e u where "getStartTime (when' item) = Inr (Val s)" "s \<noteq> 0"
      "getEndTime (when' item) = Inr (Val e)" "e \<noteq> 0"
      "getMeetingUrl (conferencing item) = Inr u"
      "\<bar>s\<bar> \<le> 8640000000000" "\<bar>e\<bar> \<le> 8640000000000"
  | (fails) s e where "getStartTime (when' item) = Inr (Val s)" "s \<noteq> 0"
      "getEndTime (when' item) = Inr (Val e)" "e \<noteq> 0"
      "\<not> \<bar>s\<bar> \<le> 8640000000000 \<or> \<not> \<bar>e\<bar> \<le> 8640000000000"
proof -
  obtain a where a: "getStartTime (when' item) = Inr a"
    by (simp add: getStartTime_eq)
  obtain b where b: "getEndTime (when' item) = Inr b"
    by (simp add: getEndTime_eq)
  obtain u where u: "getMeetingUrl (conferencing item) = Inr u"
    using getMeetingUrl_returns by blast
  show ?thesis
  proof (cases "truthy_num a \<and> truthy_num b")
    case True
    then obtain s e where se: "a = Val s" "s \<noteq> 0" "b = Val e" "e \<noteq> 0"
      by (cases a; cases b) simp_all
    show ?thesis
    proof (cases "\<bar>s\<bar> \<le> 8640000000000 \<and> \<bar>e\<bar> \<le> 8640000000000")
      case True
      with a b u se show ?thesis
        by (auto intro: shown)
    next
      case False
      with a b se show ?thesis
        by (auto intro: fails)
    qed
  next
    case False
    with a b show ?thesis
      by (auto intro: skipped)
  qed
qed

lemma render_item_form:
  assumes "render_item item = Inr (Some f)"
  shows "\<exists>s e u. getStartTime (when' item) = Inr (Val s) \<and> s \<noteq> 0 \<and>
           getEndTime (when' item) = Inr (Val e) \<and> e \<noteq> 0 \<and>
           getMeetingUrl (conferencing item) = Inr u \<and>
           f = \<lparr>key = id' item, action = ''cancelMeetingAction'', eventId = id' item,
                date_text = Formatted s ''EEE, dd MMM'',
                start_text = Formatted s ''hh:mm a'',
                end_text = Formatted e ''hh:mm a'',
                join_href = narrow_str u, heading = title item,
                you_and = or_default
                  (case participants item of [] \<Rightarrow> Undefined | p # qs \<Rightarrow> Val (name p))
                  ''participant'',
                button = ''Cancel Event''\<rparr>"
proof (cases rule: render_item_cases [of item])
  case (skipped a b)
  then have "render_item item = Inr None"
    by (rule render_item_None)
  with assms show ?thesis by simp
next
  case (shown s e u)
  from render_item_Some [OF shown] assms shown show ?thesis
    by auto
next
  case (fails s e)
  then have "render_item item = Inl RangeError"
    by (rule render_item_RangeError)
  with assms show ?thesis by simp
qed

lemma map_result_Inr:
  "map_result f xs = Inr ys \<Longrightarrow>
     length ys = length xs \<and> (\<forall>i<length xs. f (xs ! i) = Inr (ys ! i))"
proof (induction xs arbitrary: ys)
  case Nil
  then show ?case by simp
next
  case (Cons x xs)
  from Cons.prems obtain y zs where y: "f x = Inr y" and zs: "map_result f xs = Inr zs"
    and ys: "ys = y # zs"
    by (auto simp add: bind_result_def split: sum.splits)
  from Cons.IH [OF zs] have "length zs = length xs"
    "\<forall>i<length xs. f (xs ! i) = Inr (zs ! i)"
    by simp_all
  with y ys show ?case
    by (auto simp add: nth_Cons split: nat.splits)
qed

lemma map_result_returns:
  assumes "\<And>x. x \<in> set xs \<Longrightarrow> \<exists>y. f x = Inr y"
  shows "\<exists>ys. map_result f xs = Inr ys"
  using assms
proof (induction xs)
  case Nil
  show ?case by simp
next
  case (Cons x xs)
  then obtain ys where ys: "map_result f xs = Inr ys"
    by auto
  from Cons.prems obtain y where y: "f x = Inr y"
    by auto
  show ?case
    by (simp add: y ys bind_result_Inr)
qed

text \<open>The page is returned when the callback returns for every event.\<close>

lemma render_returns:
  assumes "\<And>item. item \<in> set data \<Longrightarrow> \<exists>r. render_item item = Inr r"
  shows "\<exists>p. render data = Inr p"
proof -
  from map_result_returns [of data render_item, OF assms] obtain children where
    "map_result render_item data = Inr children"
    by blast
  then show ?thesis
    by (simp add: render_def bind_result_Inr)
qed

lemma render_Card:
  assumes "data \<noteq> []" "render data = Inr p"
  shows "\<exists>children. p = Card ''Bookings''
            ''See upcoming and past events booked through your event type links.''
            children \<and> map_result render_item data = Inr children"
  using assms
  by (auto simp add: render_def bind_result_def split: sum.splits)

lemma MeetingsPage_fetches:
  assumes "session_user_id session = Inr uid" "findUnique uid = Inr (Val u)"
    and "grantId u = Val g" "g \<noteq> []" "grantEmail u = Val c" "c \<noteq> []"
    and "events_list g c = Inr raw"
  shows "MeetingsPage (Inr session) findUnique events_list calls =
           (render (map normalize_event raw), calls @ [(g, c)])"
  using assms getData_calls_vendor [of findUnique uid u g c events_list calls]
  by (simp add: MeetingsPage_def await_def)

section \<open>The claims\<close>

subsection \<open>Extraction\<close>

text \<open>
  C1. For every When payload, getStartTime returns the first present value in the order
  start_time, start, time, start_time of the first element of times, and null when
  none of them is present.
\<close>

theorem getStartTime_precedence:
  "getStartTime w =
     Inr (first_present
            [start_time w, start w, time w, first_of_times w TimeRange.start_time])
   \<and> (\<not> nullish (start_time w) \<longrightarrow> getStartTime w = Inr (start_time w))
   \<and> (nullish (start_time w) \<and> \<not> nullish (start w) \<longrightarrow> getStartTime w = Inr (start w))
   \<and> (nullish (start_time w) \<and> nullish (start w) \<and> \<not> nullish (time w) \<longrightarrow>
        getStartTime w = Inr (time w))
   \<and> (nullish (start_time w) \<and> nullish (start w) \<and> nullish (time w) \<and>
       times' w = Val (r # rs) \<longrightarrow>
        getStartTime w = Inr (Val (TimeRange.start_time r)))
   \<and> (nullish (start_time w) \<and> nullish (start w) \<and> nullish (time w) \<and>
       (nullish (times' w) \<or> times' w = Val []) \<longrightarrow>
        getStartTime w = Inr Null)"
proof -
  have order: "getStartTime w =
     Inr (first_present
            [start_time w, start w, time w, first_of_times w TimeRange.start_time])"
    by (simp add: getStartTime_def member_Val bind_result_Inr chain_first_of_times
        coalesce_Inr)
  have first: "times' w = Val (r # rs) \<Longrightarrow>
      first_of_times w TimeRange.start_time = Val (TimeRange.start_time r)"
    by (simp add: first_of_times_def)
  have none: "nullish (times' w) \<or> times' w = Val [] \<Longrightarrow>
      first_of_times w TimeRange.start_time = Undefined"
    by (cases "times' w") (auto simp add: first_of_times_def)
  from order first none show ?thesis
    by simp
qed

theorem getStartTime_precedence_witness:
  "getStartTime (empty_when\<lparr>start_time := Val 0, start := Val 2, time := Val 3\<rparr>) = Inr (Val 0)
   \<and> getStartTime (empty_when\<lparr>start_time := Null, start := Val 2, time := Val 3\<rparr>) = Inr (Val 2)
   \<and> getStartTime (empty_when\<lparr>time := Val 3,
         times' := Val [\<lparr>TimeRange.start_time = 4, end_time = 5\<rparr>]\<rparr>) = Inr (Val 3)
   \<and> getStartTime (empty_when\<lparr>times' :=
         Val [\<lparr>TimeRange.start_time = 4, end_time = 5\<rparr>,
              \<lparr>TimeRange.start_time = 6, end_time = 7\<rparr>]\<rparr>) = Inr (Val 4)
   \<and> getStartTime (empty_when\<lparr>times' := Val []\<rparr>) = Inr Null"
  using
    getStartTime_precedence [of
      "empty_when\<lparr>start_time := Val 0, start := Val 2, time := Val 3\<rparr>"]
    getStartTime_precedence [of
      "empty_when\<lparr>start_time := Null, start := Val 2, time := Val 3\<rparr>"]
    getStartTime_precedence [of
      "empty_when\<lparr>time := Val 3,
         times' := Val [\<lparr>TimeRange.start_time = 4, end_time = 5\<rparr>]\<rparr>"]
    getStartTime_precedence [of
      "empty_when\<lparr>times' :=
         Val [\<lparr>TimeRange.start_time = 4, end_time = 5\<rparr>,
              \<lparr>TimeRange.start_time = 6, end_time = 7\<rparr>]\<rparr>"
      "\<lparr>TimeRange.start_time = 4, end_time = 5\<rparr>"
      "[\<lparr>TimeRange.start_time = 6, end_time = 7\<rparr>]"]
    getStartTime_precedence [of "empty_when\<lparr>times' := Val []\<rparr>"]
  by (simp add: empty_when_def first_of_times_def)

text \<open>
  C2. For every When payload, getEndTime returns the first present value in the order
  end_time, end, end_time of the first element of times, and null when none of them is
  present; the field time has no part in it: changing it never changes the result, and
  a payload with nothing but a time has a start and no end.
\<close>

theorem getEndTime_precedence:
  "getEndTime w =
     Inr (first_present [end_time w, end' w, first_of_times w TimeRange.end_time])
   \<and> (\<not> nullish (end_time w) \<longrightarrow> getEndTime w = Inr (end_time w))
   \<and> (nullish (end_time w) \<and> \<not> nullish (end' w) \<longrightarrow> getEndTime w = Inr (end' w))
   \<and> (nullish (end_time w) \<and> nullish (end' w) \<and> times' w = Val (r # rs) \<longrightarrow>
        getEndTime w = Inr (Val (TimeRange.end_time r)))
   \<and> (nullish (end_time w) \<and> nullish (end' w) \<and>
       (nullish (times' w) \<or> times' w = Val []) \<longrightarrow>
        getEndTime w = Inr Null)
   \<and> getEndTime (w\<lparr>time := t\<rparr>) = getEndTime w
   \<and> getStartTime (empty_when\<lparr>time := Val n\<rparr>) = Inr (Val n)
   \<and> getEndTime (empty_when\<lparr>time := Val n\<rparr>) = Inr Null"
proof -
  have order: "getEndTime w =
     Inr (first_present [end_time w, end' w, first_of_times w TimeRange.end_time])"
    by (simp add: getEndTime_def member_Val bind_result_Inr chain_first_of_times
        coalesce_Inr)
  have first: "times' w = Val (r # rs) \<Longrightarrow>
      first_of_times w TimeRange.end_time = Val (TimeRange.end_time r)"
    by (simp add: first_of_times_def)
  have none: "nullish (times' w) \<or> times' w = Val [] \<Longrightarrow>
      first_of_times w TimeRange.end_time = Undefined"
    by (cases "times' w") (auto simp add: first_of_times_def)
  have unread: "getEndTime (w\<lparr>time := t\<rparr>) = getEndTime w"
    by (simp add: getEndTime_eq first_of_times_def)
  have single: "getStartTime (empty_when\<lparr>time := Val n\<rparr>) = Inr (Val n)"
    "getEndTime (empty_when\<lparr>time := Val n\<rparr>) = Inr Null"
    by (simp_all add: getStartTime_eq getEndTime_eq first_of_times_def empty_when_def)
  from order first none unread single show ?thesis
    by simp
qed

theorem getEndTime_precedence_witness:
  "getEndTime (empty_when\<lparr>end_time := Val 0, end' := Val 2\<rparr>) = Inr (Val 0)
   \<and> getEndTime (empty_when\<lparr>end_time := Null, end' := Val 2, time := Val 3\<rparr>) = Inr (Val 2)
   \<and> getEndTime (empty_when\<lparr>time := Val 3,
         times' := Val [\<lparr>TimeRange.start_time = 4, end_time = 5\<rparr>]\<rparr>) = Inr (Val 5)
   \<and> getEndTime (empty_when\<lparr>time := Val 3\<rparr>) = Inr Null
   \<and> getStartTime (empty_when\<lparr>time := Val 3\<rparr>) = Inr (Val 3)"
  using
    getEndTime_precedence [of "empty_when\<lparr>end_time := Val 0, end' := Val 2\<rparr>"]
    getEndTime_precedence [of
      "empty_when\<lparr>end_time := Null, end' := Val 2, time := Val 3\<rparr>"]
    getEndTime_precedence [of
      "empty_when\<lparr>time := Val 3,
         times' := Val [\<lparr>TimeRange.start_time = 4, end_time = 5\<rparr>]\<rparr>"
      "\<lparr>TimeRange.start_time = 4, end_time = 5\<rparr>" "[]"]
    getEndTime_precedence [of "empty_when\<lparr>time := Val 3\<rparr>"]
  by (simp add: empty_when_def getStartTime_eq first_of_times_def)

text \<open>
  C5. For every Conferencing payload, getMeetingUrl returns details.url when present,
  otherwise the top-level url when present, otherwise null; when the conferencing
  argument is absent it returns null.
\<close>

theorem getMeetingUrl_precedence:
  "getMeetingUrl (Val c) = Inr (first_present [details_url c, url c])
   \<and> (details c = Val d \<and> \<not> nullish (Details.url d) \<longrightarrow>
        getMeetingUrl (Val c) = Inr (Details.url d))
   \<and> ((nullish (details c) \<or> (details c = Val d \<and> nullish (Details.url d))) \<and>
       \<not> nullish (url c) \<longrightarrow>
        getMeetingUrl (Val c) = Inr (url c))
   \<and> ((nullish (details c) \<or> (details c = Val d \<and> nullish (Details.url d))) \<and>
       nullish (url c) \<longrightarrow>
        getMeetingUrl (Val c) = Inr Null)
   \<and> getMeetingUrl (Undefined :: 'z Conferencing_scheme nullable) = Inr Null
   \<and> getMeetingUrl (Null :: 'z Conferencing_scheme nullable) = Inr Null"
proof -
  have order: "getMeetingUrl (Val c) = Inr (first_present [details_url c, url c])"
    by (simp add: getMeetingUrl_def opt_chain_Val member_Val bind_result_Inr
        chain_details_url coalesce_Inr)
  have there: "details c = Val d \<Longrightarrow> details_url c = Details.url d"
    by (simp add: details_url_def)
  have none: "nullish (details c) \<Longrightarrow> details_url c = Undefined"
    by (cases "details c") (simp_all add: details_url_def)
  have absent: "getMeetingUrl (Undefined :: 'z Conferencing_scheme nullable) = Inr Null"
    "getMeetingUrl (Null :: 'z Conferencing_scheme nullable) = Inr Null"
    by (simp_all add: getMeetingUrl_def opt_chain_def coalesce_def)
  from order there none absent show ?thesis
    by auto
qed

theorem getMeetingUrl_precedence_witness:
  "getMeetingUrl (Val \<lparr>details = Val \<lparr>Details.url = Val ''https://meet.example/a''\<rparr>,
                       url = Val ''https://meet.example/b''\<rparr>)
     = Inr (Val ''https://meet.example/a'')
   \<and> getMeetingUrl (Val \<lparr>details = Val \<lparr>Details.url = Null\<rparr>,
                       url = Val ''https://meet.example/b''\<rparr>)
     = Inr (Val ''https://meet.example/b'')
   \<and> getMeetingUrl (Val \<lparr>details = Undefined, url = Val ''https://meet.example/b''\<rparr>)
     = Inr (Val ''https://meet.example/b'')
   \<and> getMeetingUrl (Val \<lparr>details = Undefined, url = Undefined\<rparr>) = Inr Null"
  using
    getMeetingUrl_precedence [of
      "\<lparr>details = Val \<lparr>Details.url = Val ''https://meet.example/a''\<rparr>,
        url = Val ''https://meet.example/b''\<rparr>"
      "\<lparr>Details.url = Val ''https://meet.example/a''\<rparr>"]
    getMeetingUrl_precedence [of
      "\<lparr>details = Val \<lparr>Details.url = Null\<rparr>, url = Val ''https://meet.example/b''\<rparr>"
      "\<lparr>Details.url = Null\<rparr>"]
    getMeetingUrl_precedence [of
      "\<lparr>details = Undefined, url = Val ''https://meet.example/b''\<rparr>"]
    getMeetingUrl_precedence [of "\<lparr>details = Undefined, url = Undefined\<rparr>"]
  by (auto simp add: details_url_def)

text \<open>
  C4. The three extraction functions are total and null-safe: on every When payload and
  on every conferencing argument, present or absent, each returns (no property is read
  on a missing object) and what it returns is a value or null, never undefined. This
  holds for the payload with no field set, for an empty times list and for an absent
  conferencing object, where the result is null.
\<close>

theorem extraction_total:
  "(\<exists>a. getStartTime w = Inr a \<and> a \<noteq> Undefined)
   \<and> (\<exists>b. getEndTime w = Inr b \<and> b \<noteq> Undefined)
   \<and> (\<exists>u. getMeetingUrl c = Inr u \<and> u \<noteq> Undefined)
   \<and> getStartTime empty_when = Inr Null
   \<and> getEndTime empty_when = Inr Null
   \<and> getStartTime (empty_when\<lparr>times' := Val []\<rparr>) = Inr Null
   \<and> getEndTime (empty_when\<lparr>times' := Val []\<rparr>) = Inr Null
   \<and> getMeetingUrl (Undefined :: 'z Conferencing_scheme nullable) = Inr Null
   \<and> getMeetingUrl (Val \<lparr>details = Undefined, url = Undefined\<rparr>) = Inr Null"
proof -
  have m: "\<exists>u. getMeetingUrl c = Inr u \<and> u \<noteq> Undefined"
  proof (cases c)
    case (Val x)
    then show ?thesis
      using first_present_defined [of "[details_url x, url x]"]
      by (simp only: getMeetingUrl_Val) blast
  qed (simp_all add: getMeetingUrl_absent)
  have s: "\<exists>a. getStartTime w = Inr a \<and> a \<noteq> Undefined"
    using first_present_defined
    by (simp only: getStartTime_eq) blast
  have e: "\<exists>b. getEndTime w = Inr b \<and> b \<noteq> Undefined"
    using first_present_defined
    by (simp only: getEndTime_eq) blast
  have x: "getStartTime empty_when = Inr Null" "getEndTime empty_when = Inr Null"
    "getStartTime (empty_when\<lparr>times' := Val []\<rparr>) = Inr Null"
    "getEndTime (empty_when\<lparr>times' := Val []\<rparr>) = Inr Null"
    by (simp_all add: getStartTime_eq getEndTime_eq first_of_times_def empty_when_def)
  have y: "getMeetingUrl (Undefined :: 'z Conferencing_scheme nullable) = Inr Null"
    "getMeetingUrl (Val \<lparr>details = Undefined, url = Undefined\<rparr>) = Inr Null"
    by (simp_all add: getMeetingUrl_absent getMeetingUrl_Val details_url_def)
  from m s e x y show ?thesis by blast
qed

text \<open>
  C3, as stated: the normalisation turns every shape of the payload (single time, time
  range, list of time ranges, date-only) into a usable start and end, and a date-only
  payload still gives a non-null result. It does not: a date-only payload gives null
  for both, and a single time gives a start and no end.
\<close>

theorem date_only_counterexample:
  "date_only (empty_when\<lparr>date := Val ''2025-03-01''\<rparr>)
   \<and> getStartTime (empty_when\<lparr>date := Val ''2025-03-01''\<rparr>) = Inr Null
   \<and> getEndTime (empty_when\<lparr>date := Val ''2025-03-01''\<rparr>) = Inr Null
   \<and> single_time (empty_when\<lparr>time := Val 1700000000\<rparr>)
   \<and> getEndTime (empty_when\<lparr>time := Val 1700000000\<rparr>) = Inr Null"
  by (simp add: date_only_def single_time_def getStartTime_eq getEndTime_eq
      first_of_times_def empty_when_def)

text \<open>
  C3, amended: a time range (start_time and end_time, or start and end) gives its start
  and end; a non-empty list of time ranges, with no other time field, gives the start
  and end of its first element; a single time gives the time as start and null as end;
  a date-only payload gives null for both. The fields date and dates are never read:
  changing them changes neither result.
\<close>

theorem when_shapes:
  "(\<not> nullish (start_time w) \<and> \<not> nullish (end_time w) \<longrightarrow>
      getStartTime w = Inr (start_time w) \<and> getEndTime w = Inr (end_time w))
   \<and> (nullish (start_time w) \<and> nullish (end_time w) \<and>
       \<not> nullish (start w) \<and> \<not> nullish (end' w) \<longrightarrow>
      getStartTime w = Inr (start w) \<and> getEndTime w = Inr (end' w))
   \<and> (nullish (start_time w) \<and> nullish (end_time w) \<and> nullish (start w) \<and>
       nullish (end' w) \<and> nullish (time w) \<and> times' w = Val (r # rs) \<longrightarrow>
      getStartTime w = Inr (Val (TimeRange.start_time r)) \<and>
      getEndTime w = Inr (Val (TimeRange.end_time r)))
   \<and> (single_time w \<longrightarrow> getStartTime w = Inr (time w) \<and> getEndTime w = Inr Null)
   \<and> (date_only w \<longrightarrow> getStartTime w = Inr Null \<and> getEndTime w = Inr Null)
   \<and> getStartTime (w\<lparr>date := d, dates := ds\<rparr>) = getStartTime w
   \<and> getEndTime (w\<lparr>date := d, dates := ds\<rparr>) = getEndTime w"
proof -
  have range1: "\<not> nullish (start_time w) \<and> \<not> nullish (end_time w) \<longrightarrow>
      getStartTime w = Inr (start_time w) \<and> getEndTime w = Inr (end_time w)"
    by (simp add: getStartTime_eq getEndTime_eq)
  have range2: "nullish (start_time w) \<and> nullish (end_time w) \<and>
       \<not> nullish (start w) \<and> \<not> nullish (end' w) \<longrightarrow>
      getStartTime w = Inr (start w) \<and> getEndTime w = Inr (end' w)"
    by (simp add: getStartTime_eq getEndTime_eq)
  have ranges: "nullish (start_time w) \<and> nullish (end_time w) \<and> nullish (start w) \<and>
       nullish (end' w) \<and> nullish (time w) \<and> times' w = Val (r # rs) \<longrightarrow>
      getStartTime w = Inr (Val (TimeRange.start_time r)) \<and>
      getEndTime w = Inr (Val (TimeRange.end_time r))"
    by (simp add: getStartTime_eq getEndTime_eq first_of_times_def)
  have nolist: "nullish (times' w) \<Longrightarrow> first_of_times w f = Undefined" for f
    by (cases "times' w") (simp_all add: first_of_times_def)
  have single: "single_time w \<longrightarrow> getStartTime w = Inr (time w) \<and> getEndTime w = Inr Null"
    by (simp add: single_time_def getStartTime_eq getEndTime_eq nolist)
  have dateonly: "date_only w \<longrightarrow> getStartTime w = Inr Null \<and> getEndTime w = Inr Null"
    by (simp add: date_only_def getStartTime_eq getEndTime_eq nolist)
  have unread: "getStartTime (w\<lparr>date := d, dates := ds\<rparr>) = getStartTime w"
    "getEndTime (w\<lparr>date := d, dates := ds\<rparr>) = getEndTime w"
    by (simp_all add: getStartTime_eq getEndTime_eq first_of_times_def)
  from range1 range2 ranges single dateonly unread show ?thesis by blast
qed

theorem when_shapes_witness:
  "getStartTime (empty_when\<lparr>start_time := Val 100, end_time := Val 200\<rparr>) = Inr (Val 100)
   \<and> getEndTime (empty_when\<lparr>start_time := Val 100, end_time := Val 200\<rparr>) = Inr (Val 200)
   \<and> getStartTime (empty_when\<lparr>start := Val 100, end' := Val 200\<rparr>) = Inr (Val 100)
   \<and> getEndTime (empty_when\<lparr>start := Val 100, end' := Val 200\<rparr>) = Inr (Val 200)
   \<and> getStartTime (empty_when\<lparr>times' :=
         Val [\<lparr>TimeRange.start_time = 100, end_time = 200\<rparr>]\<rparr>) = Inr (Val 100)
   \<and> getEndTime (empty_when\<lparr>times' :=
         Val [\<lparr>TimeRange.start_time = 100, end_time = 200\<rparr>]\<rparr>) = Inr (Val 200)
   \<and> getStartTime (empty_when\<lparr>time := Val 100\<rparr>) = Inr (Val 100)
   \<and> getEndTime (empty_when\<lparr>time := Val 100\<rparr>) = Inr Null
   \<and> getStartTime (empty_when\<lparr>dates := Val [''2025-03-01'', ''2025-03-02'']\<rparr>) = Inr Null
   \<and> getEndTime (empty_when\<lparr>dates := Val [''2025-03-01'', ''2025-03-02'']\<rparr>) = Inr Null"
  using
    when_shapes [of "empty_when\<lparr>start_time := Val 100, end_time := Val 200\<rparr>"]
    when_shapes [of "empty_when\<lparr>start := Val 100, end' := Val 200\<rparr>"]
    when_shapes [of "empty_when\<lparr>times' := Val [\<lparr>TimeRange.start_time = 100, end_time = 200\<rparr>]\<rparr>"
      "\<lparr>TimeRange.start_time = 100, end_time = 200\<rparr>" "[]"]
    when_shapes [of "empty_when\<lparr>time := Val 100\<rparr>"]
    when_shapes [of "empty_when\<lparr>dates := Val [''2025-03-01'', ''2025-03-02'']\<rparr>"]
  by (simp add: empty_when_def single_time_def date_only_def)

subsection \<open>Which events are rendered\<close>




subsection \<open>getData\<close>

text \<open>
  C8, as stated: getData throws an error exactly when the database lookup yields no
  user record, a user without a grantId, or a user without a grantEmail. It throws in
  one more case: with a user who has both, the rejection of the calendar client is
  thrown on, after the call.
\<close>

theorem vendor_rejects_counterexample:
  "complete_user_db (Val ''u1'') =
     Inr (Val \<lparr>grantId = Val ''grant-1'', grantEmail = Val ''me@example.org''\<rparr>)
   \<and> truthy_str (Val ''grant-1'') \<and> truthy_str (Val ''me@example.org'')
   \<and> getData complete_user_db unavailable_vendor (Val ''u1'') [] =
       (Inl (Rejected ''503 Service Unavailable''), [(''grant-1'', ''me@example.org'')])"
  by (simp add: getData_def await_def narrow_str_def bind_result_def
      complete_user_db_def unavailable_vendor_def)

text \<open>
  C8, amended: getData throws an error of its own exactly when the database lookup
  yields no user record (message "User not found"), a user without a grantId ("User
  grantId not found"), or a user with a grantId and without a grantEmail ("User
  grantEmail not found"); an empty string counts as none, as the test is one of
  truthiness. In each of these cases the calendar client is not called. When the
  database client and the calendar client both answer, getData throws in these cases
  and in no other.
\<close>

theorem getData_throws:
  "(\<forall>m. (fst (getData findUnique events_list userId calls) = Inl (Error m)) =
      (\<exists>ud. findUnique userId = Inr ud \<and>
         (nullish ud \<and> m = ''User not found'' \<or>
          (\<exists>u. ud = Val u \<and> \<not> truthy_str (grantId u) \<and> m = ''User grantId not found'') \<or>
          (\<exists>u. ud = Val u \<and> truthy_str (grantId u) \<and> \<not> truthy_str (grantEmail u) \<and>
               m = ''User grantEmail not found''))))
   \<and> (\<forall>m. fst (getData findUnique events_list userId calls) = Inl (Error m) \<longrightarrow>
          snd (getData findUnique events_list userId calls) = calls)
   \<and> (\<forall>ud. findUnique userId = Inr ud \<and> (\<forall>g c. \<exists>raw. events_list g c = Inr raw) \<longrightarrow>
          (\<exists>e. fst (getData findUnique events_list userId calls) = Inl e) =
          (nullish ud \<or>
           (\<exists>u. ud = Val u \<and> (\<not> truthy_str (grantId u) \<or> \<not> truthy_str (grantEmail u)))))"
proof (cases rule: getData_cases [of findUnique userId])
  case (db_rejects reason)
  then show ?thesis by (simp add: getData_db_rejects)
next
  case (no_user ud)
  then show ?thesis by (cases ud) (auto simp add: getData_no_user)
next
  case (no_grantId u)
  then show ?thesis by (auto simp add: getData_no_grantId)
next
  case (no_grantEmail u)
  then show ?thesis by (auto simp add: getData_no_grantEmail)
next
  case (calls_vendor u g c)
  then have r: "getData findUnique events_list userId calls =
     (case events_list g c of
        Inl reason \<Rightarrow> Inl (Rejected reason)
      | Inr raw \<Rightarrow> Inr (map normalize_event raw),
      calls @ [(g, c)])"
    by (rule getData_calls_vendor)
  have t: "truthy_str (grantId u)" "truthy_str (grantEmail u)"
    using calls_vendor by simp_all
  show ?thesis
  proof (cases "events_list g c")
    case (Inl reason)
    then have "\<not> (\<forall>g c. \<exists>raw. events_list g c = Inr raw)"
      by (metis Inl_Inr_False)
    with Inl r t calls_vendor(1) show ?thesis by simp
  next
    case (Inr raw)
    with r t calls_vendor(1) show ?thesis by auto
  qed
qed

theorem getData_throws_witness:
  "getData (\<lambda>uid. Inr Null)
     (\<lambda>g c. Inr ([] :: (unit, unit) RawEvent list)) (Val ''u1'') []
     = (Inl (Error ''User not found''), [])
   \<and> getData (\<lambda>uid. Inr (Val \<lparr>grantId = Val '''', grantEmail = Val ''me@example.org''\<rparr>))
     (\<lambda>g c. Inr ([] :: (unit, unit) RawEvent list)) (Val ''u1'') []
     = (Inl (Error ''User grantId not found''), [])
   \<and> getData (\<lambda>uid. Inr (Val \<lparr>grantId = Val ''grant-1'', grantEmail = Null\<rparr>))
     (\<lambda>g c. Inr ([] :: (unit, unit) RawEvent list)) (Val ''u1'') []
     = (Inl (Error ''User grantEmail not found''), [])
   \<and> getData (\<lambda>uid. Inr (Val \<lparr>grantId = Val ''grant-1'', grantEmail = Val ''me@example.org''\<rparr>))
     (\<lambda>g c. Inr ([] :: (unit, unit) RawEvent list)) (Val ''u1'') []
     = (Inr [], [(''grant-1'', ''me@example.org'')])"
  using
    getData_throws [of "\<lambda>uid. Inr Null"
      "\<lambda>g c. Inr ([] :: (unit, unit) RawEvent list)" "Val ''u1''" "[]"]
    getData_throws [of
      "\<lambda>uid. Inr (Val \<lparr>grantId = Val '''', grantEmail = Val ''me@example.org''\<rparr>)"
      "\<lambda>g c. Inr ([] :: (unit, unit) RawEvent list)" "Val ''u1''" "[]"]
    getData_throws [of
      "\<lambda>uid. Inr (Val \<lparr>grantId = Val ''grant-1'', grantEmail = Null\<rparr>)"
      "\<lambda>g c. Inr ([] :: (unit, unit) RawEvent list)" "Val ''u1''" "[]"]
    getData_throws [of
      "\<lambda>uid. Inr (Val \<lparr>grantId = Val ''grant-1'', grantEmail = Val ''me@example.org''\<rparr>)"
      "\<lambda>g c. Inr ([] :: (unit, unit) RawEvent list)" "Val ''u1''" "[]"]
  by (simp add: getData_def await_def narrow_str_def bind_result_def)

text \<open>
  C9. Every event returned by getData is the vendor's event with its title replaced by
  the empty string when absent, and its participants replaced by the list of their
  names, each an object with exactly a name, the empty string when absent, and by the
  empty list when the vendor's list is absent; the id, the when, the conferencing and
  every further property of the vendor's event are passed through unchanged.
\<close>

theorem getData_normalizes:
  assumes "getData findUnique events_list userId calls = (Inr data, calls')"
  shows "\<exists>g c raw. events_list g c = Inr raw \<and> calls' = calls @ [(g, c)] \<and>
     length data = length raw \<and>
     (\<forall>i<length raw.
        title (data ! i) = (case title (raw ! i) of Val t \<Rightarrow> t | _ \<Rightarrow> '''')
      \<and> participants (data ! i) =
          (case participants (raw ! i) of
             Val ps \<Rightarrow> map (\<lambda>p. \<lparr>name = (case name p of Val n \<Rightarrow> n | _ \<Rightarrow> '''')\<rparr>) ps
           | _ \<Rightarrow> [])
      \<and> id' (data ! i) = id' (raw ! i)
      \<and> when' (data ! i) = when' (raw ! i)
      \<and> conferencing (data ! i) = conferencing (raw ! i)
      \<and> Event.more (data ! i) = Event.more (raw ! i))"
proof -
  from getData_Inr [OF assms] obtain g c raw where
    raw: "events_list g c = Inr raw" "data = map normalize_event raw"
      "calls' = calls @ [(g, c)]"
    by blast
  have "\<forall>i<length raw.
        title (data ! i) = (case title (raw ! i) of Val t \<Rightarrow> t | _ \<Rightarrow> '''')
      \<and> participants (data ! i) =
          (case participants (raw ! i) of
             Val ps \<Rightarrow> map (\<lambda>p. \<lparr>name = (case name p of Val n \<Rightarrow> n | _ \<Rightarrow> '''')\<rparr>) ps
           | _ \<Rightarrow> [])
      \<and> id' (data ! i) = id' (raw ! i)
      \<and> when' (data ! i) = when' (raw ! i)
      \<and> conferencing (data ! i) = conferencing (raw ! i)
      \<and> Event.more (data ! i) = Event.more (raw ! i)"
    by (simp add: raw(2) normalize_event_fields)
  with raw show ?thesis by auto
qed

theorem getData_normalizes_witness:
  "getData (\<lambda>uid. Inr (Val \<lparr>grantId = Val ''grant-1'', grantEmail = Val ''me@example.org''\<rparr>))
     (\<lambda>g c. Inr
        [\<lparr>id' = ''e1'', when' = empty_when, title = Undefined, participants = Null,
          conferencing = Undefined\<rparr>,
         \<lparr>id' = ''e2'', when' = empty_when\<lparr>time := Val 1700000000\<rparr>, title = Val ''Demo'',
          participants = Val [\<lparr>name = Undefined\<rparr>, \<lparr>name = Val ''Ann''\<rparr>],
          conferencing = Null\<rparr>])
     (Val ''u1'') []
   = (Inr
        [\<lparr>id' = ''e1'', when' = empty_when, title = '''', participants = [],
          conferencing = Undefined\<rparr>,
         \<lparr>id' = ''e2'', when' = empty_when\<lparr>time := Val 1700000000\<rparr>, title = ''Demo'',
          participants = [\<lparr>name = ''''\<rparr>, \<lparr>name = ''Ann''\<rparr>],
          conferencing = Null\<rparr>],
      [(''grant-1'', ''me@example.org'')])"
proof -
  have h: "getData (\<lambda>uid. Inr (Val \<lparr>grantId = Val ''grant-1'', grantEmail = Val ''me@example.org''\<rparr>))
     (\<lambda>g c. Inr
        [\<lparr>id' = ''e1'', when' = empty_when, title = Undefined, participants = Null,
          conferencing = Undefined\<rparr>,
         \<lparr>id' = ''e2'', when' = empty_when\<lparr>time := Val 1700000000\<rparr>, title = Val ''Demo'',
          participants = Val [\<lparr>name = Undefined\<rparr>, \<lparr>name = Val ''Ann''\<rparr>],
          conferencing = Null\<rparr>])
     (Val ''u1'') []
   = (Inr
        [\<lparr>id' = ''e1'', when' = empty_when, title = '''', participants = [],
          conferencing = Undefined\<rparr>,
         \<lparr>id' = ''e2'', when' = empty_when\<lparr>time := Val 1700000000\<rparr>, title = ''Demo'',
          participants = [\<lparr>name = ''''\<rparr>, \<lparr>name = ''Ann''\<rparr>],
          conferencing = Null\<rparr>],
      [(''grant-1'', ''me@example.org'')])"
    by (simp add: getData_def await_def narrow_str_def bind_result_def normalize_event_def
        normalize_participant_def coalesce_default_def opt_map_def)
  from getData_normalizes [OF h] h show ?thesis
    by simp
qed

subsection \<open>The page\<close>

text \<open>
  C6, as stated: every rendered entry is an upcoming (not past) event. It is not: the
  page compares no time with the current one, and an event of 1970 gets its form.
\<close>

theorem past_event_counterexample:
  "render
     [\<lparr>id' = ''e1'', when' = empty_when\<lparr>start_time := Val 1000, end_time := Val 4600\<rparr>,
       title = ''Kickoff'', participants = [\<lparr>name = ''Ann''\<rparr>], conferencing = Undefined\<rparr>]
   = Inr (Card ''Bookings''
            ''See upcoming and past events booked through your event type links.''
            [Some \<lparr>key = ''e1'', action = ''cancelMeetingAction'', eventId = ''e1'',
                   date_text = Formatted 1000 ''EEE, dd MMM'',
                   start_text = Formatted 1000 ''hh:mm a'',
                   end_text = Formatted 4600 ''hh:mm a'', join_href = None,
                   heading = ''Kickoff'', you_and = ''Ann'', button = ''Cancel Event''\<rparr>])
   \<and> \<not> upcoming 1700000000
         \<lparr>key = ''e1'', action = ''cancelMeetingAction'', eventId = ''e1'',
          date_text = Formatted 1000 ''EEE, dd MMM'',
          start_text = Formatted 1000 ''hh:mm a'',
          end_text = Formatted 4600 ''hh:mm a'', join_href = None,
          heading = ''Kickoff'', you_and = ''Ann'', button = ''Cancel Event''\<rparr>"
  by (simp add: render_def render_item_def getStartTime_eq getEndTime_eq getMeetingUrl_absent
      bind_result_Inr first_name_returns narrow_num_def narrow_str_def or_default_def
      format_fromUnixTime_def upcoming_def empty_when_def)

text \<open>
  C6, amended: the page fetches the user's calendar events from the vendor API (one
  call, with the user's grant identifier and calendar id) and renders the list of these
  bookings, past ones as well as upcoming ones, each with a cancel action: every
  rendered entry is the entry of the fetched event at its place in the list, and
  carries a cancel form bound to that event's id.
\<close>

theorem bookings_rendered:
  "(session_user_id session = Inr uid \<and> findUnique uid = Inr (Val u) \<and>
    grantId u = Val g \<and> g \<noteq> [] \<and> grantEmail u = Val c \<and> c \<noteq> [] \<and>
    events_list g c = Inr raw \<longrightarrow>
      MeetingsPage (Inr session) findUnique events_list calls =
        (render (map normalize_event raw), calls @ [(g, c)]))
   \<and> (data \<noteq> [] \<and> render data = Inr p \<longrightarrow>
        (\<exists>children.
           p = Card ''Bookings''
                 ''See upcoming and past events booked through your event type links.''
                 children \<and>
           length children = length data \<and>
           (\<forall>i<length data.
              render_item (data ! i) = Inr (children ! i) \<and>
              (\<forall>f. children ! i = Some f \<longrightarrow>
                 key f = id' (data ! i) \<and> action f = ''cancelMeetingAction'' \<and>
                 eventId f = id' (data ! i) \<and> button f = ''Cancel Event''))))"
proof -
  have fetch: "session_user_id session = Inr uid \<and> findUnique uid = Inr (Val u) \<and>
    grantId u = Val g \<and> g \<noteq> [] \<and> grantEmail u = Val c \<and> c \<noteq> [] \<and>
    events_list g c = Inr raw \<longrightarrow>
      MeetingsPage (Inr session) findUnique events_list calls =
        (render (map normalize_event raw), calls @ [(g, c)])"
    using MeetingsPage_fetches by blast
  have card: "\<exists>children.
           p = Card ''Bookings''
                 ''See upcoming and past events booked through your event type links.''
                 children \<and>
           length children = length data \<and>
           (\<forall>i<length data.
              render_item (data ! i) = Inr (children ! i) \<and>
              (\<forall>f. children ! i = Some f \<longrightarrow>
                 key f = id' (data ! i) \<and> action f = ''cancelMeetingAction'' \<and>
                 eventId f = id' (data ! i) \<and> button f = ''Cancel Event''))"
    if ne: "data \<noteq> []" and p: "render data = Inr p"
  proof -
    from render_Card [OF ne p] obtain children where
      c: "p = Card ''Bookings''
            ''See upcoming and past events booked through your event type links.''
            children"
      and m: "map_result render_item data = Inr children"
      by blast
    from map_result_Inr [OF m] have len: "length children = length data"
      and each: "\<forall>i<length data. render_item (data ! i) = Inr (children ! i)"
      by simp_all
    have "key f = id' (data ! i) \<and> action f = ''cancelMeetingAction'' \<and>
          eventId f = id' (data ! i) \<and> button f = ''Cancel Event''"
      if i: "i < length data" and f: "children ! i = Some f" for i f
    proof -
      from each i f have "render_item (data ! i) = Inr (Some f)"
        by simp
      from render_item_form [OF this] show ?thesis
        by auto
    qed
    with c len each show ?thesis
      by blast
  qed
  from fetch card show ?thesis
    by blast
qed

theorem bookings_rendered_witness:
  "MeetingsPage (Inr (Val \<lparr>user = Val \<lparr>User.id' = Val ''u1''\<rparr>\<rparr>))
     (\<lambda>uid. Inr (Val \<lparr>grantId = Val ''grant-1'', grantEmail = Val ''me@example.org''\<rparr>))
     (\<lambda>g c. Inr
        [\<lparr>id' = ''e1'', when' = empty_when\<lparr>start_time := Val 1000, end_time := Val 4600\<rparr>,
          title = Val ''Kickoff'', participants = Val [\<lparr>name = Val ''Ann''\<rparr>],
          conferencing = Undefined\<rparr>,
         \<lparr>id' = ''e2'', when' = empty_when\<lparr>date := Val ''2030-01-01''\<rparr>,
          title = Val ''Holiday'', participants = Null, conferencing = Undefined\<rparr>])
     []
   = (Inr (Card ''Bookings''
            ''See upcoming and past events booked through your event type links.''
            [Some \<lparr>key = ''e1'', action = ''cancelMeetingAction'', eventId = ''e1'',
                   date_text = Formatted 1000 ''EEE, dd MMM'',
                   start_text = Formatted 1000 ''hh:mm a'',
                   end_text = Formatted 4600 ''hh:mm a'', join_href = None,
                   heading = ''Kickoff'', you_and = ''Ann'', button = ''Cancel Event''\<rparr>,
             None]),
      [(''grant-1'', ''me@example.org'')])"
proof -
  have norm: "map normalize_event
        [\<lparr>id' = ''e1'', when' = empty_when\<lparr>start_time := Val 1000, end_time := Val 4600\<rparr>,
          title = Val ''Kickoff'', participants = Val [\<lparr>name = Val ''Ann''\<rparr>],
          conferencing = Undefined\<rparr>,
         \<lparr>id' = ''e2'', when' = empty_when\<lparr>date := Val ''2030-01-01''\<rparr>,
          title = Val ''Holiday'', participants = Null, conferencing = Undefined\<rparr>]
     = [\<lparr>id' = ''e1'', when' = empty_when\<lparr>start_time := Val 1000, end_time := Val 4600\<rparr>,
          title = ''Kickoff'', participants = [\<lparr>name = ''Ann''\<rparr>],
          conferencing = Undefined\<rparr>,
         \<lparr>id' = ''e2'', when' = empty_when\<lparr>date := Val ''2030-01-01''\<rparr>,
          title = ''Holiday'', participants = [], conferencing = Undefined\<rparr>]"
    by (simp add: normalize_event_def normalize_participant_def coalesce_default_def
        opt_map_def)
  have shown: "render
       [\<lparr>id' = ''e1'', when' = empty_when\<lparr>start_time := Val 1000, end_time := Val 4600\<rparr>,
          title = ''Kickoff'', participants = [\<lparr>name = ''Ann''\<rparr>],
          conferencing = Undefined\<rparr>,
         \<lparr>id' = ''e2'', when' = empty_when\<lparr>date := Val ''2030-01-01''\<rparr>,
          title = ''Holiday'', participants = [], conferencing = Undefined\<rparr>]
     = Inr (Card ''Bookings''
            ''See upcoming and past events booked through your event type links.''
            [Some \<lparr>key = ''e1'', action = ''cancelMeetingAction'', eventId = ''e1'',
                   date_text = Formatted 1000 ''EEE, dd MMM'',
                   start_text = Formatted 1000 ''hh:mm a'',
                   end_text = Formatted 4600 ''hh:mm a'', join_href = None,
                   heading = ''Kickoff'', you_and = ''Ann'', button = ''Cancel Event''\<rparr>,
             None])"
    by (simp add: render_def render_item_def getStartTime_eq getEndTime_eq
        getMeetingUrl_absent bind_result_def narrow_num_def narrow_str_def index_js_def
        opt_chain_def or_default_def format_fromUnixTime_def first_of_times_def
        empty_when_def)
  show ?thesis
    using norm shown
      bookings_rendered [of
      "Val \<lparr>user = Val \<lparr>User.id' = Val ''u1''\<rparr>\<rparr>" "Val ''u1''"
      "\<lambda>uid. Inr (Val \<lparr>grantId = Val ''grant-1'', grantEmail = Val ''me@example.org''\<rparr>)"
      "\<lparr>grantId = Val ''grant-1'', grantEmail = Val ''me@example.org''\<rparr>"
      "''grant-1''" "''me@example.org''"
      "\<lambda>g c. Inr
        [\<lparr>id' = ''e1'', when' = empty_when\<lparr>start_time := Val 1000, end_time := Val 4600\<rparr>,
          title = Val ''Kickoff'', participants = Val [\<lparr>name = Val ''Ann''\<rparr>],
          conferencing = Undefined\<rparr>,
         \<lparr>id' = ''e2'', when' = empty_when\<lparr>date := Val ''2030-01-01''\<rparr>,
          title = Val ''Holiday'', participants = Null, conferencing = Undefined\<rparr>]"
      "[\<lparr>id' = ''e1'', when' = empty_when\<lparr>start_time := Val 1000, end_time := Val 4600\<rparr>,
          title = Val ''Kickoff'', participants = Val [\<lparr>name = Val ''Ann''\<rparr>],
          conferencing = Undefined\<rparr>,
         \<lparr>id' = ''e2'', when' = empty_when\<lparr>date := Val ''2030-01-01''\<rparr>,
          title = Val ''Holiday'', participants = Null, conferencing = Undefined\<rparr>]"
      "[]"
      "[\<lparr>id' = ''e1'', when' = empty_when\<lparr>start_time := Val 1000, end_time := Val 4600\<rparr>,
          title = ''Kickoff'', participants = [\<lparr>name = ''Ann''\<rparr>],
          conferencing = Undefined\<rparr>,
         \<lparr>id' = ''e2'', when' = empty_when\<lparr>date := Val ''2030-01-01''\<rparr>,
          title = ''Holiday'', participants = [], conferencing = Undefined\<rparr>]"
      "Card ''Bookings''
            ''See upcoming and past events booked through your event type links.''
            [Some \<lparr>key = ''e1'', action = ''cancelMeetingAction'', eventId = ''e1'',
                   date_text = Formatted 1000 ''EEE, dd MMM'',
                   start_text = Formatted 1000 ''hh:mm a'',
                   end_text = Formatted 4600 ''hh:mm a'', join_href = None,
                   heading = ''Kickoff'', you_and = ''Ann'', button = ''Cancel Event''\<rparr>,
             None]"]
    by (simp add: session_user_id_def opt_chain_def)
qed

end
